theory Spec2Isabelle
  imports Main "HOL-Library.Char_ord" "HOL-Library.List_Lexorder" "HOL-Library.AList"
    "HOL-Library.Multiset"
begin

section \<open>Data model (app.py, MODELS)\<close>

text \<open>
  The two tables of app.py. Column \<open>id\<close> and \<open>created_at\<close> occur in both classes, so the
  fields of \<open>User\<close> carry the prefix \<open>u_\<close> and the key of \<open>Feedback\<close> is \<open>f_id\<close>.
  Integers are Python's unbounded ints; a \<open>datetime\<close> is a point on an integer time line
  (microseconds). \<open>password_hash\<close> is the only nullable column that the code reads as such.
  Strings are lists of 8-bit characters: the model covers the code points below 256.
\<close>

type_synonym timestamp = int

record User =
  u_id :: int
  u_name :: string
  u_email :: string
  password_hash :: "string option"
  u_created_at :: timestamp

record Feedback =
  f_id :: int
  sender_id :: int
  recipient_id :: int
  content :: string
  visible :: bool
  created_at :: timestamp

text \<open>
  The state a request handler sees: the two keys of the Flask session that the code uses
  (\<open>session['user_id']\<close>, \<open>session['pre_user_id']\<close>; \<open>None\<close> is an absent key) and the
  rows of the two tables, in the order in which the store scans them.
\<close>

record world =
  user_id :: "int option"
  pre_user_id :: "int option"
  users :: "User list"
  feedbacks :: "Feedback list"

section \<open>Requests and responses\<close>

datatype http_method = GET | POST

text \<open>
  The method of the request (\<open>request.method\<close>, here \<open>req_method\<close>) and the form fields
  that the handlers read with \<open>request.form.get\<close>; \<open>None\<close> is a field that
  is not in the form. \<open>form_recipient_id\<close> holds the value of
  \<open>int(request.form.get('recipient_id'))\<close>, with \<open>None\<close> where \<open>int\<close> raises (field absent
  or not a decimal numeral).
\<close>

record request =
  req_method :: http_method
  form_email :: "string option"
  form_password :: "string option"
  form_confirm_password :: "string option"
  form_recipient_id :: "int option"
  form_content :: "string option"
  form_visible :: "string option"

text \<open>
  A handler answers with a redirect to an endpoint, a rendered template with its context,
  or an exception that nothing catches (HTTP 500). \<open>flash(message, category)\<close> queues a
  message for the next page; the queued messages are returned with the redirect. The
  dict \<open>feedback_map\<close> of the give-feedback page is an association list in insertion
  order, one entry per key.
\<close>

datatype exn = BadInt | DataError | IntegrityError

type_synonym flash = "string \<times> string"

datatype page =
    LoginPage
  | SetPasswordPage User
  | GiveFeedbackPage User "User list" "(int \<times> Feedback) list"
  | ViewFeedbackPage User "Feedback list" "Feedback list"

datatype response =
    Redirect string "flash list"
  | Render page
  | ServerError exn

section \<open>Python strings and truth values\<close>

text \<open>\<open>str.isspace\<close> on the code points below 256.\<close>

definition isspace :: "char \<Rightarrow> bool" where
  "isspace c =
     (let n = (of_char c :: nat)
      in (9 \<le> n \<and> n \<le> 13) \<or> (28 \<le> n \<and> n \<le> 32) \<or> n = 133 \<or> n = 160)"

definition strip :: "string \<Rightarrow> string" where
  "strip s = rev (dropWhile isspace (rev (dropWhile isspace s)))"

text \<open>\<open>str.lower\<close> on the code points below 256: A-Z and the capital letters of Latin-1.\<close>

definition lower_char :: "char \<Rightarrow> char" where
  "lower_char c =
     (let n = (of_char c :: nat)
      in if (65 \<le> n \<and> n \<le> 90) \<or> (192 \<le> n \<and> n \<le> 222 \<and> n \<noteq> 215)
         then char_of (n + 32) else c)"

definition lower :: "string \<Rightarrow> string" where
  "lower s = map lower_char s"

text \<open>\<open>not s\<close> for a value that is \<open>None\<close> or a string, and for one that is \<open>None\<close> or an int.\<close>

definition falsy_str :: "string option \<Rightarrow> bool" where
  "falsy_str s = (case s of None \<Rightarrow> True | Some v \<Rightarrow> v = [])"

definition falsy_int :: "int option \<Rightarrow> bool" where
  "falsy_int i = (case i of None \<Rightarrow> True | Some v \<Rightarrow> v = 0)"

text \<open>\<open>request.form.get(key, '')\<close>.\<close>

definition get_or_empty :: "string option \<Rightarrow> string" where
  "get_or_empty s = (case s of None \<Rightarrow> [] | Some v \<Rightarrow> v)"

section \<open>Password hashing (werkzeug.security)\<close>

text \<open>
  \<open>generate_password_hash\<close> and \<open>check_password_hash\<close> are library functions; the
  handlers take them as a parameter. \<open>generate_password_hash\<close> draws a random salt, which
  is its first argument here.
\<close>

record pw_lib =
  generate_password_hash :: "string \<Rightarrow> string \<Rightarrow> string"
  check_password_hash :: "string \<Rightarrow> string \<Rightarrow> bool"

definition User_set_password :: "pw_lib \<Rightarrow> string \<Rightarrow> User \<Rightarrow> string \<Rightarrow> User" where
  "User_set_password lib salt self raw =
     self\<lparr>password_hash := Some (generate_password_hash lib salt raw)\<rparr>"

definition User_check_password :: "pw_lib \<Rightarrow> User \<Rightarrow> string \<Rightarrow> bool" where
  "User_check_password lib self raw =
     (case password_hash self of
        None \<Rightarrow> False
      | Some h \<Rightarrow> if h = [] then False else check_password_hash lib h raw)"

section \<open>Store operations\<close>

text \<open>An attribute assignment on the row that \<open>first()\<close> or \<open>get()\<close> returned, committed.\<close>

fun update_first :: "('a \<Rightarrow> bool) \<Rightarrow> ('a \<Rightarrow> 'a) \<Rightarrow> 'a list \<Rightarrow> 'a list" where
  "update_first P g [] = []"
| "update_first P g (x # xs) = (if P x then g x # xs else x # update_first P g xs)"

text \<open>The key that the store assigns to a new feedback row (an autoincrement column).\<close>

definition fresh_id :: "Feedback list \<Rightarrow> int" where
  "fresh_id fs = fold max (map f_id fs) 0 + 1"

text \<open>The two \<open>ForeignKey('user.id')\<close> columns of \<open>Feedback\<close>: both references are user ids.\<close>

definition fk_ok :: "User list \<Rightarrow> Feedback \<Rightarrow> bool" where
  "fk_ok us f = (sender_id f \<in> set (map u_id us) \<and> recipient_id f \<in> set (map u_id us))"

text \<open>The values of a \<open>db.Integer\<close> column: 32 bits, signed.\<close>

definition in_int32 :: "int \<Rightarrow> bool" where
  "in_int32 i = (- 2147483648 \<le> i \<and> i \<le> 2147483647)"

text \<open>
  What the store answers when \<open>db.session.commit()\<close> inserts a feedback row: \<open>None\<close> when it
  takes the row, the exception that it raises otherwise. The handler does not look at the
  row itself, so the answer of the store is a parameter of the handler.

  \<open>insert_refused\<close> is the answer of the PostgreSQL store that app.py asks for. A reference
  outside the range of the column is a \<open>DataError\<close>, a reference in range that is no user
  id is an \<open>IntegrityError\<close>. The ids of the stored users are values of the column
  \<open>User.id\<close>, so a row that references two of them is taken.
\<close>

type_synonym store = "User list \<Rightarrow> Feedback \<Rightarrow> exn option"

definition insert_refused :: store where
  "insert_refused us f =
     (if fk_ok us f then None
      else if in_int32 (sender_id f) \<and> in_int32 (recipient_id f) then Some IntegrityError
      else Some DataError)"

text \<open>
  \<open>order_by(Feedback.created_at.desc())\<close>. The store fixes no order among rows of equal
  time; the model takes the one of a reversed insertion sort.
\<close>

definition order_by_created_at_desc :: "Feedback list \<Rightarrow> Feedback list" where
  "order_by_created_at_desc fs = rev (sort_key created_at fs)"

definition by_pair :: "int \<Rightarrow> int \<Rightarrow> Feedback \<Rightarrow> bool" where
  "by_pair s r f = (sender_id f = s \<and> recipient_id f = r)"

section \<open>Handlers\<close>

definition current_user :: "world \<Rightarrow> User option" where
  "current_user w =
     (if falsy_int (user_id w) then None
      else case user_id w of
             None \<Rightarrow> None
           | Some uid \<Rightarrow> find (\<lambda>u. u_id u = uid) (users w))"

definition login :: "pw_lib \<Rightarrow> world \<Rightarrow> request \<Rightarrow> response \<times> world" where
  "login lib w req =
     (if req_method req = POST then
        (let email = lower (strip (get_or_empty (form_email req)))
         in case find (\<lambda>u. u_email u = email) (users w) of
              None \<Rightarrow>
                (Redirect ''login''
                   [(''Email not recognized. Please use an email from the class list.'',
                     ''danger'')], w)
            | Some user \<Rightarrow>
                if falsy_str (password_hash user)
                then (Redirect ''set_password'' [], w\<lparr>pre_user_id := Some (u_id user)\<rparr>)
                else
                  (let password = get_or_empty (form_password req)
                   in if User_check_password lib user password
                      then (Redirect ''dashboard''
                              [(''Welcome, '' @ u_name user @ ''!'', ''success'')],
                            w\<lparr>user_id := Some (u_id user)\<rparr>)
                      else (Redirect ''login'' [(''Incorrect password.'', ''danger'')], w)))
      else (Render LoginPage, w))"

definition set_password :: "pw_lib \<Rightarrow> string \<Rightarrow> world \<Rightarrow> request \<Rightarrow> response \<times> world" where
  "set_password lib salt w req =
     (if falsy_int (pre_user_id w)
      then (Redirect ''login'' [(''No email selected. Start from login.'', ''warning'')], w)
      else case find (\<lambda>u. Some (u_id u) = pre_user_id w) (users w) of
             None \<Rightarrow> (Redirect ''login'' [(''User not found.'', ''danger'')], w)
           | Some user \<Rightarrow>
               if req_method req = POST then
                 (let p1 = form_password req; p2 = form_confirm_password req
                  in if falsy_str p1 \<or> p1 \<noteq> p2
                     then (Redirect ''set_password''
                             [(''Passwords empty or don't match.'', ''danger'')], w)
                     else (Redirect ''dashboard''
                             [(''Password set! Logged in.'', ''success'')],
                           w\<lparr>users := update_first (\<lambda>u. Some (u_id u) = pre_user_id w)
                                         (\<lambda>u. User_set_password lib salt u (get_or_empty p1))
                                         (users w),
                             pre_user_id := None,
                             user_id := Some (u_id user)\<rparr>))
               else (Render (SetPasswordPage user), w))"

text \<open>
  \<open>now\<close> is the reading of \<open>datetime.utcnow\<close> that the column default of
  \<open>Feedback.created_at\<close> takes when a row is inserted. \<open>order_by(User.name)\<close> is the
  order of the code points.
\<close>

definition give_feedback_on ::
  "store \<Rightarrow> timestamp \<Rightarrow> world \<Rightarrow> request \<Rightarrow> response \<times> world" where
  "give_feedback_on commit now w req =
     (case current_user w of
        None \<Rightarrow> (Redirect ''login'' [], w)
      | Some user \<Rightarrow>
          (let all_users = sort_key u_name (users w);
               recipients = filter (\<lambda>u. u_id u \<noteq> u_id user) all_users
           in if req_method req = POST then
                (case form_recipient_id req of
                   None \<Rightarrow> (ServerError BadInt, w)
                 | Some rid \<Rightarrow>
                     (let c = strip (get_or_empty (form_content req));
                          v = (\<not> falsy_str (form_visible req))
                      in if c = []
                         then (Redirect ''give_feedback''
                                 [(''Feedback cannot be empty.'', ''danger'')], w)
                         else
                           (case find (by_pair (u_id user) rid) (feedbacks w) of
                              Some existing \<Rightarrow>
                                (Redirect ''give_feedback''
                                   [(''Feedback updated!'', ''success'')],
                                 w\<lparr>feedbacks :=
                                     update_first (by_pair (u_id user) rid)
                                       (\<lambda>f. f\<lparr>content := c, visible := v\<rparr>)
                                       (feedbacks w)\<rparr>)
                            | None \<Rightarrow>
                                (let f = \<lparr>f_id = fresh_id (feedbacks w),
                                          sender_id = u_id user, recipient_id = rid,
                                          content = c, visible = v, created_at = now\<rparr>
                                 in case commit (users w) f of
                                      None \<Rightarrow>
                                        (Redirect ''give_feedback''
                                           [(''Feedback sent!'', ''success'')],
                                         w\<lparr>feedbacks := feedbacks w @ [f]\<rparr>)
                                    | Some e \<Rightarrow> (ServerError e, w)))))
              else
                (let given_feedbacks = filter (\<lambda>f. sender_id f = u_id user) (feedbacks w);
                     feedback_map = fold (\<lambda>f m. AList.update (recipient_id f) f m) given_feedbacks []
                 in (Render (GiveFeedbackPage user recipients feedback_map), w))))"

text \<open>The handler of app.py, on the PostgreSQL store.\<close>

definition give_feedback :: "timestamp \<Rightarrow> world \<Rightarrow> request \<Rightarrow> response \<times> world" where
  "give_feedback now w req = give_feedback_on insert_refused now w req"

definition view_feedback :: "world \<Rightarrow> response \<times> world" where
  "view_feedback w =
     (case current_user w of
        None \<Rightarrow> (Redirect ''login'' [], w)
      | Some user \<Rightarrow>
          (let given = order_by_created_at_desc
                         (filter (\<lambda>f. sender_id f = u_id user) (feedbacks w));
               received = order_by_created_at_desc
                            (filter (\<lambda>f. recipient_id f = u_id user) (feedbacks w))
           in (Render (ViewFeedbackPage user given received), w)))"

section \<open>Properties of the store and names of the failures\<close>

text \<open>At most one feedback row for each ordered pair of sender and recipient.\<close>

definition unique_pairs :: "Feedback list \<Rightarrow> bool" where
  "unique_pairs fs = distinct (map (\<lambda>f. (sender_id f, recipient_id f)) fs)"

text \<open>
  The failures of section 7 of the specification are, in app.py, a flashed message of
  category \<open>danger\<close> and a redirect. Each name stands for the response of the handler.
\<close>

definition UnknownEmail :: response where
  "UnknownEmail = Redirect ''login''
     [(''Email not recognized. Please use an email from the class list.'', ''danger'')]"

definition PasswordMismatch :: response where
  "PasswordMismatch =
     Redirect ''set_password'' [(''Passwords empty or don't match.'', ''danger'')]"

definition EmptyContent :: response where
  "EmptyContent = Redirect ''give_feedback'' [(''Feedback cannot be empty.'', ''danger'')]"

text \<open>
  A failure that the handler itself reports: a redirect with a message of category
  \<open>danger\<close> or \<open>warning\<close>. An uncaught exception is not one.
\<close>

definition app_failure :: "response \<Rightarrow> bool" where
  "app_failure resp =
     (case resp of
        Redirect endpoint fl \<Rightarrow> list_ex (\<lambda>m. snd m = ''danger'' \<or> snd m = ''warning'') fl
      | Render pg \<Rightarrow> False
      | ServerError e \<Rightarrow> False)"

text \<open>An exception that nothing catches.\<close>

definition server_error :: "response \<Rightarrow> bool" where
  "server_error resp =
     (case resp of
        Redirect endpoint fl \<Rightarrow> False
      | Render pg \<Rightarrow> False
      | ServerError e \<Rightarrow> True)"

section \<open>Example data\<close>

text \<open>
  A stand-in for the hashing library, with the salt in front of a separator and the
  password itself in place of its digest.
\<close>

definition toy_lib :: pw_lib where
  "toy_lib = \<lparr>generate_password_hash = (\<lambda>salt raw. salt @ ''$'' @ raw),
              check_password_hash =
                (\<lambda>h raw. case dropWhile (\<lambda>c. c \<noteq> CHR ''$'') h of
                             [] \<Rightarrow> False | d # digest \<Rightarrow> digest = raw)\<rparr>"

definition alice :: User where
  "alice = \<lparr>u_id = 1, u_name = ''Alice'', u_email = ''alice@example.org'',
            password_hash = None, u_created_at = 10\<rparr>"

definition bob :: User where
  "bob = \<lparr>u_id = 2, u_name = ''Bob'', u_email = ''bob@example.org'',
          password_hash = None, u_created_at = 20\<rparr>"

definition post_login :: "string \<Rightarrow> string \<Rightarrow> request" where
  "post_login e p = \<lparr>req_method = POST, form_email = Some e, form_password = Some p,
     form_confirm_password = None, form_recipient_id = None, form_content = None,
     form_visible = None\<rparr>"

definition post_set_password :: "string \<Rightarrow> string \<Rightarrow> request" where
  "post_set_password p1 p2 = \<lparr>req_method = POST, form_email = None, form_password = Some p1,
     form_confirm_password = Some p2, form_recipient_id = None, form_content = None,
     form_visible = None\<rparr>"

definition post_feedback :: "int \<Rightarrow> string \<Rightarrow> bool \<Rightarrow> request" where
  "post_feedback r c v = \<lparr>req_method = POST, form_email = None, form_password = None,
     form_confirm_password = None, form_recipient_id = Some r, form_content = Some c,
     form_visible = (if v then Some ''on'' else None)\<rparr>"

definition anonymous :: world where
  "anonymous = \<lparr>user_id = None, pre_user_id = None, users = [alice, bob], feedbacks = []\<rparr>"

definition pending :: world where
  "pending = \<lparr>user_id = None, pre_user_id = Some 1, users = [alice, bob], feedbacks = []\<rparr>"

definition logged_in :: world where
  "logged_in = \<lparr>user_id = Some 1, pre_user_id = None, users = [alice, bob], feedbacks = []\<rparr>"

definition one_row :: world where
  "one_row = \<lparr>user_id = Some 1, pre_user_id = None, users = [alice, bob],
     feedbacks = [\<lparr>f_id = 1, sender_id = 1, recipient_id = 2, content = ''x'',
                   visible = True, created_at = 100\<rparr>]\<rparr>"

definition two_rows :: world where
  "two_rows = \<lparr>user_id = Some 1, pre_user_id = None, users = [alice, bob],
     feedbacks = [\<lparr>f_id = 1, sender_id = 1, recipient_id = 2, content = ''old'',
                   visible = True, created_at = 100\<rparr>,
                  \<lparr>f_id = 2, sender_id = 1, recipient_id = 2, content = ''older'',
                   visible = False, created_at = 101\<rparr>]\<rparr>"

definition three_rows :: world where
  "three_rows = \<lparr>user_id = Some 1, pre_user_id = None, users = [alice, bob],
     feedbacks = [\<lparr>f_id = 1, sender_id = 1, recipient_id = 2, content = ''first'',
                   visible = True, created_at = 100\<rparr>,
                  \<lparr>f_id = 2, sender_id = 2, recipient_id = 1, content = ''back'',
                   visible = True, created_at = 150\<rparr>,
                  \<lparr>f_id = 3, sender_id = 1, recipient_id = 1, content = ''self'',
                   visible = False, created_at = 200\<rparr>]\<rparr>"

section \<open>Lemmas on lists and on the handlers\<close>

lemma update_first_keys:
  "map (\<lambda>f. (sender_id f, recipient_id f))
     (update_first P (\<lambda>f. f\<lparr>content := c, visible := v\<rparr>) fs)
   = map (\<lambda>f. (sender_id f, recipient_id f)) fs"
  by (induction fs) auto

lemma find_by_pair_None:
  "find (by_pair s r) fs = None \<Longrightarrow>
   (s, r) \<notin> set (map (\<lambda>f. (sender_id f, recipient_id f)) fs)"
  by (auto simp: find_None_iff by_pair_def)

lemma find_conv_filter:
  "find P xs = (case filter P xs of [] \<Rightarrow> None | y # ys \<Rightarrow> Some y)"
  by (induction xs) auto

lemma filter_update_first:
  "(\<And>x. P x \<Longrightarrow> P (g x)) \<Longrightarrow>
   filter P (update_first P g xs) = (case filter P xs of [] \<Rightarrow> [] | y # ys \<Rightarrow> g y # ys)"
  by (induction xs) auto

lemma by_pair_update [simp]:
  "by_pair s r (f\<lparr>content := c, visible := v\<rparr>) = by_pair s r f"
  by (simp add: by_pair_def)

lemma find_distinct:
  "distinct (map k xs) \<Longrightarrow> u \<in> set xs \<Longrightarrow> find (\<lambda>x. k x = k u) xs = Some u"
  by (induction xs) force+

lemma find_update_first_distinct:
  "distinct (map k xs) \<Longrightarrow> distinct (map e xs) \<Longrightarrow> u \<in> set xs \<Longrightarrow>
   (\<And>x. e (g x) = e x) \<Longrightarrow>
   find (\<lambda>x. e x = e u) (update_first (\<lambda>x. k x = k u) g xs) = Some (g u)"
proof (induction xs)
  case Nil
  then show ?case by simp
next
  case (Cons x xs)
  show ?case
  proof (cases "k x = k u")
    case True
    with Cons.prems(1,3) have "x = u" by (cases "u \<in> set xs") force+
    with Cons.prems(4) show ?thesis by simp
  next
    case False
    with Cons.prems(3) have u: "u \<in> set xs" by auto
    with Cons.prems(2) have "e x \<noteq> e u" by force
    with False Cons.IH [OF _ _ u Cons.prems(4)] Cons.prems(1,2) show ?thesis by simp
  qed
qed

lemma current_user_in_users:
  "current_user w = Some u \<Longrightarrow> u \<in> set (users w)"
  by (auto simp: current_user_def find_Some_iff split: if_splits option.splits)

lemma give_feedback_session:
  "user_id (snd (give_feedback now w req)) = user_id w \<and>
   pre_user_id (snd (give_feedback now w req)) = pre_user_id w \<and>
   users (snd (give_feedback now w req)) = users w"
  by (simp add: give_feedback_def give_feedback_on_def insert_refused_def Let_def
      split: option.splits)

lemma current_user_give_feedback:
  "current_user (snd (give_feedback now w req)) = current_user w"
  by (simp add: current_user_def give_feedback_session split: option.splits)

text \<open>A POST that passes the checks, when a row for the pair is there: the update branch.\<close>

lemma give_feedback_existing:
  assumes "current_user w = Some u" and "req_method req = POST"
    and "form_recipient_id req = Some r"
    and "strip (get_or_empty (form_content req)) \<noteq> []"
    and "filter (by_pair (u_id u) r) (feedbacks w) = f # fs"
  shows "give_feedback now w req =
           (Redirect ''give_feedback'' [(''Feedback updated!'', ''success'')],
            w\<lparr>feedbacks := update_first (by_pair (u_id u) r)
                 (\<lambda>f. f\<lparr>content := strip (get_or_empty (form_content req)),
                         visible := (\<not> falsy_str (form_visible req))\<rparr>) (feedbacks w)\<rparr>)"
    and "filter (by_pair (u_id u) r) (feedbacks (snd (give_feedback now w req))) =
           f\<lparr>content := strip (get_or_empty (form_content req)),
             visible := (\<not> falsy_str (form_visible req))\<rparr> # fs"
proof -
  have fd: "find (by_pair (u_id u) r) (feedbacks w) = Some f"
    using assms(5) by (simp add: find_conv_filter)
  show g: "give_feedback now w req =
           (Redirect ''give_feedback'' [(''Feedback updated!'', ''success'')],
            w\<lparr>feedbacks := update_first (by_pair (u_id u) r)
                 (\<lambda>f. f\<lparr>content := strip (get_or_empty (form_content req)),
                         visible := (\<not> falsy_str (form_visible req))\<rparr>) (feedbacks w)\<rparr>)"
    using assms(1-4) fd
    by (simp add: give_feedback_def give_feedback_on_def insert_refused_def Let_def)
  show "filter (by_pair (u_id u) r) (feedbacks (snd (give_feedback now w req))) =
           f\<lparr>content := strip (get_or_empty (form_content req)),
             visible := (\<not> falsy_str (form_visible req))\<rparr> # fs"
    by (simp add: g filter_update_first assms(5))
qed

text \<open>The same when no row for the pair is there and the recipient is a user: the insert.\<close>

lemma give_feedback_new:
  assumes "current_user w = Some u" and "req_method req = POST"
    and "form_recipient_id req = Some r"
    and "strip (get_or_empty (form_content req)) \<noteq> []"
    and "filter (by_pair (u_id u) r) (feedbacks w) = []"
    and "r \<in> set (map u_id (users w))"
  shows "give_feedback now w req =
           (Redirect ''give_feedback'' [(''Feedback sent!'', ''success'')],
            w\<lparr>feedbacks := feedbacks w @
               [\<lparr>f_id = fresh_id (feedbacks w), sender_id = u_id u, recipient_id = r,
                 content = strip (get_or_empty (form_content req)),
                 visible = (\<not> falsy_str (form_visible req)), created_at = now\<rparr>]\<rparr>)"
    and "filter (by_pair (u_id u) r) (feedbacks (snd (give_feedback now w req))) =
           [\<lparr>f_id = fresh_id (feedbacks w), sender_id = u_id u, recipient_id = r,
             content = strip (get_or_empty (form_content req)),
             visible = (\<not> falsy_str (form_visible req)), created_at = now\<rparr>]"
proof -
  have fd: "find (by_pair (u_id u) r) (feedbacks w) = None"
    using assms(5) by (simp add: find_conv_filter)
  have fk: "u_id u \<in> set (map u_id (users w))"
    using current_user_in_users [OF assms(1)] by simp
  show g: "give_feedback now w req =
           (Redirect ''give_feedback'' [(''Feedback sent!'', ''success'')],
            w\<lparr>feedbacks := feedbacks w @
               [\<lparr>f_id = fresh_id (feedbacks w), sender_id = u_id u, recipient_id = r,
                 content = strip (get_or_empty (form_content req)),
                 visible = (\<not> falsy_str (form_visible req)), created_at = now\<rparr>]\<rparr>)"
    using assms(1-4,6) fd fk
    by (simp add: give_feedback_def give_feedback_on_def insert_refused_def Let_def fk_ok_def)
  show "filter (by_pair (u_id u) r) (feedbacks (snd (give_feedback now w req))) =
           [\<lparr>f_id = fresh_id (feedbacks w), sender_id = u_id u, recipient_id = r,
             content = strip (get_or_empty (form_content req)),
             visible = (\<not> falsy_str (form_visible req)), created_at = now\<rparr>]"
    by (simp add: g assms(5) by_pair_def)
qed

lemma sorted_desc:
  "sorted_wrt (\<lambda>a b. created_at b \<le> created_at a) (order_by_created_at_desc fs)"
proof -
  have "sorted (map created_at (sort_key created_at fs))" by simp
  then have "sorted_wrt (\<lambda>a b. created_at a \<le> created_at b) (sort_key created_at fs)"
    by (simp add: sorted_map)
  then show ?thesis
    by (simp add: order_by_created_at_desc_def sorted_wrt_rev)
qed

lemma mset_order_by: "mset (order_by_created_at_desc fs) = mset fs"
  by (simp add: order_by_created_at_desc_def)

text \<open>A recipient id beyond the range of the column: the store answers \<open>DataError\<close>.\<close>

lemma give_feedback_out_of_range:
  "give_feedback 200 logged_in (post_feedback 2147483648 ''hi'' True) =
     (ServerError DataError, logged_in)"
  by code_simp

section \<open>Feedback upsert\<close>

text \<open>
  C1, as the code has it. A POST of non-blank content for a pair that has a row overwrites
  the content and the visibility flag of that row and leaves its key and its
  \<open>created_at\<close> as they were. So, from a store with at most one row for the pair and with
  the recipient a user, two submissions in sequence leave exactly one row for the pair; it
  has the content and the flag of the second submission and the \<open>created_at\<close> that the row
  had after the first.
\<close>

theorem give_feedback_overwrites:
  assumes "current_user w = Some u"
    and "req_method req1 = POST" and "form_recipient_id req1 = Some r"
    and "strip (get_or_empty (form_content req1)) \<noteq> []"
    and "req_method req2 = POST" and "form_recipient_id req2 = Some r"
    and "strip (get_or_empty (form_content req2)) \<noteq> []"
    and "r \<in> set (map u_id (users w))"
    and "length (filter (by_pair (u_id u) r) (feedbacks w)) \<le> 1"
  shows "(\<forall>f0. filter (by_pair (u_id u) r) (feedbacks w) = [f0] \<longrightarrow>
            filter (by_pair (u_id u) r) (feedbacks (snd (give_feedback t1 w req1))) =
              [f0\<lparr>content := strip (get_or_empty (form_content req1)),
                  visible := (\<not> falsy_str (form_visible req1))\<rparr>]) \<and>
         (\<exists>f1 f2.
            filter (by_pair (u_id u) r) (feedbacks (snd (give_feedback t1 w req1))) = [f1] \<and>
            filter (by_pair (u_id u) r)
              (feedbacks (snd (give_feedback t2 (snd (give_feedback t1 w req1)) req2))) = [f2] \<and>
            content f2 = strip (get_or_empty (form_content req2)) \<and>
            visible f2 = (\<not> falsy_str (form_visible req2)) \<and>
            f_id f2 = f_id f1 \<and> created_at f2 = created_at f1)"
proof -
  let ?w1 = "snd (give_feedback t1 w req1)"
  have cu1: "current_user ?w1 = Some u"
    using assms(1) by (simp add: current_user_give_feedback)
  have step: "filter (by_pair (u_id u) r) (feedbacks ?w1) =
                [f0\<lparr>content := strip (get_or_empty (form_content req1)),
                    visible := (\<not> falsy_str (form_visible req1))\<rparr>]"
    if "filter (by_pair (u_id u) r) (feedbacks w) = [f0]" for f0
    using give_feedback_existing(2) [OF assms(1-4) that, of t1] .
  obtain f1 where f1: "filter (by_pair (u_id u) r) (feedbacks ?w1) = [f1]"
  proof (cases "filter (by_pair (u_id u) r) (feedbacks w)")
    case Nil
    from give_feedback_new(2) [OF assms(1-4) Nil assms(8), of t1] that show ?thesis by simp
  next
    case (Cons f fs)
    with assms(9) have "fs = []" by simp
    with Cons step that show ?thesis by simp
  qed
  from give_feedback_existing(2) [OF cu1 assms(5-7) f1, of t2] f1 step
  show ?thesis by simp
qed

theorem give_feedback_overwrites_witness:
  "current_user one_row = Some alice \<and>
   req_method (post_feedback 2 ''x'' True) = POST \<and>
   form_recipient_id (post_feedback 2 ''x'' True) = Some 2 \<and>
   strip (get_or_empty (form_content (post_feedback 2 ''x'' True))) \<noteq> [] \<and>
   req_method (post_feedback 2 ''y'' False) = POST \<and>
   form_recipient_id (post_feedback 2 ''y'' False) = Some 2 \<and>
   strip (get_or_empty (form_content (post_feedback 2 ''y'' False))) \<noteq> [] \<and>
   2 \<in> set (map u_id (users one_row)) \<and>
   length (filter (by_pair (u_id alice) 2) (feedbacks one_row)) \<le> 1 \<and>
   (\<exists>f1 f2.
      filter (by_pair (u_id alice) 2)
        (feedbacks (snd (give_feedback 150 one_row (post_feedback 2 ''x'' True)))) = [f1] \<and>
      filter (by_pair (u_id alice) 2)
        (feedbacks (snd (give_feedback 200
           (snd (give_feedback 150 one_row (post_feedback 2 ''x'' True)))
           (post_feedback 2 ''y'' False)))) = [f2] \<and>
      content f2 = strip (get_or_empty (form_content (post_feedback 2 ''y'' False))) \<and>
      visible f2 = (\<not> falsy_str (form_visible (post_feedback 2 ''y'' False))) \<and>
      f_id f2 = f_id f1 \<and> created_at f2 = created_at f1)"
proof -
  have h1: "current_user one_row = Some alice" by code_simp
  have h2: "req_method (post_feedback 2 ''x'' True) = POST" by code_simp
  have h3: "form_recipient_id (post_feedback 2 ''x'' True) = Some 2" by code_simp
  have h4: "strip (get_or_empty (form_content (post_feedback 2 ''x'' True))) \<noteq> []"
    by code_simp
  have h5: "req_method (post_feedback 2 ''y'' False) = POST" by code_simp
  have h6: "form_recipient_id (post_feedback 2 ''y'' False) = Some 2" by code_simp
  have h7: "strip (get_or_empty (form_content (post_feedback 2 ''y'' False))) \<noteq> []"
    by code_simp
  have h8: "2 \<in> set (map u_id (users one_row))" by code_simp
  have h9: "length (filter (by_pair (u_id alice) 2) (feedbacks one_row)) \<le> 1" by code_simp
  from give_feedback_overwrites [OF h1 h2 h3 h4 h5 h6 h7 h8 h9, of 150 200]
  have c: "\<exists>f1 f2.
      filter (by_pair (u_id alice) 2)
        (feedbacks (snd (give_feedback 150 one_row (post_feedback 2 ''x'' True)))) = [f1] \<and>
      filter (by_pair (u_id alice) 2)
        (feedbacks (snd (give_feedback 200
           (snd (give_feedback 150 one_row (post_feedback 2 ''x'' True)))
           (post_feedback 2 ''y'' False)))) = [f2] \<and>
      content f2 = strip (get_or_empty (form_content (post_feedback 2 ''y'' False))) \<and>
      visible f2 = (\<not> falsy_str (form_visible (post_feedback 2 ''y'' False))) \<and>
      f_id f2 = f_id f1 \<and> created_at f2 = created_at f1"
    by (rule conjunct2)
  show ?thesis
    by (intro conjI) (rule h1 h2 h3 h4 h5 h6 h7 h8 h9 c)+
qed

text \<open>
  C1 as stated has the timestamp overwritten as well. The row of time 100 below is
  overwritten by a submission at time 200: content and flag change, \<open>created_at\<close> stays 100.
\<close>

theorem give_feedback_keeps_created_at:
  "feedbacks (snd (give_feedback 200 one_row (post_feedback 2 ''y'' False))) =
     [\<lparr>f_id = 1, sender_id = 1, recipient_id = 2, content = ''y'', visible = False,
       created_at = 100\<rparr>] \<and>
   feedbacks (snd (give_feedback 200 one_row (post_feedback 2 ''y'' False))) \<noteq>
     [\<lparr>f_id = 1, sender_id = 1, recipient_id = 2, content = ''y'', visible = False,
       created_at = 200\<rparr>]"
  by code_simp

text \<open>
  C2, as the code has it. From a store with at most one row for the pair, with the
  recipient a user, the same submission of non-blank content made twice leaves exactly one
  row for the pair, with the trimmed content; the second submission changes nothing.
\<close>

theorem give_feedback_twice:
  assumes "current_user w = Some u" and "req_method req = POST"
    and "form_recipient_id req = Some r"
    and "strip (get_or_empty (form_content req)) = x" and "x \<noteq> []"
    and "r \<in> set (map u_id (users w))"
    and "length (filter (by_pair (u_id u) r) (feedbacks w)) \<le> 1"
  shows "\<exists>f. filter (by_pair (u_id u) r)
                (feedbacks (snd (give_feedback t2 (snd (give_feedback t1 w req)) req))) = [f] \<and>
             content f = x \<and>
             snd (give_feedback t2 (snd (give_feedback t1 w req)) req) =
               snd (give_feedback t1 w req)"
proof -
  let ?w1 = "snd (give_feedback t1 w req)"
  let ?c = "strip (get_or_empty (form_content req))"
  let ?v = "\<not> falsy_str (form_visible req)"
  have ne: "?c \<noteq> []" using assms(4,5) by simp
  have cu1: "current_user ?w1 = Some u"
    using assms(1) by (simp add: current_user_give_feedback)
  obtain f1 where f1: "filter (by_pair (u_id u) r) (feedbacks ?w1) = [f1]"
    and c1: "content f1 = ?c" and v1: "visible f1 = ?v"
  proof (cases "filter (by_pair (u_id u) r) (feedbacks w)")
    case Nil
    from give_feedback_new(2) [OF assms(1-3) ne Nil assms(6), of t1] that
    show ?thesis by simp
  next
    case (Cons f fs)
    with assms(7) have fs: "fs = []" by simp
    from give_feedback_existing(2) [OF assms(1-3) ne Cons, of t1] fs that
    show ?thesis by simp
  qed
  have upd: "update_first (by_pair (u_id u) r) (\<lambda>f. f\<lparr>content := ?c, visible := ?v\<rparr>) fs = fs"
    if "\<forall>f \<in> set fs. by_pair (u_id u) r f \<longrightarrow> content f = ?c \<and> visible f = ?v" for fs
    using that by (induction fs) auto
  have all1: "\<forall>f \<in> set (feedbacks ?w1).
                by_pair (u_id u) r f \<longrightarrow> content f = ?c \<and> visible f = ?v"
  proof (intro ballI impI)
    fix f assume "f \<in> set (feedbacks ?w1)" and "by_pair (u_id u) r f"
    then have "f \<in> set (filter (by_pair (u_id u) r) (feedbacks ?w1))" by simp
    with f1 have "f = f1" by simp
    with c1 v1 show "content f = ?c \<and> visible f = ?v" by simp
  qed
  have w2: "snd (give_feedback t2 ?w1 req) = ?w1"
    using give_feedback_existing(1) [OF cu1 assms(2,3) ne f1, of t2] upd [OF all1] by simp
  show ?thesis using f1 c1 w2 assms(4) by simp
qed

theorem give_feedback_twice_witness:
  "current_user logged_in = Some alice \<and>
   req_method (post_feedback 2 ''x'' True) = POST \<and>
   form_recipient_id (post_feedback 2 ''x'' True) = Some 2 \<and>
   strip (get_or_empty (form_content (post_feedback 2 ''x'' True))) = ''x'' \<and>
   ''x'' \<noteq> [] \<and>
   2 \<in> set (map u_id (users logged_in)) \<and>
   length (filter (by_pair (u_id alice) 2) (feedbacks logged_in)) \<le> 1 \<and>
   (\<exists>f. filter (by_pair (u_id alice) 2)
          (feedbacks (snd (give_feedback 200
             (snd (give_feedback 100 logged_in (post_feedback 2 ''x'' True)))
             (post_feedback 2 ''x'' True)))) = [f] \<and>
        content f = ''x'' \<and>
        snd (give_feedback 200
               (snd (give_feedback 100 logged_in (post_feedback 2 ''x'' True)))
               (post_feedback 2 ''x'' True)) =
          snd (give_feedback 100 logged_in (post_feedback 2 ''x'' True)))"
proof -
  have h1: "current_user logged_in = Some alice" by code_simp
  have h2: "req_method (post_feedback 2 ''x'' True) = POST" by code_simp
  have h3: "form_recipient_id (post_feedback 2 ''x'' True) = Some 2" by code_simp
  have h4: "strip (get_or_empty (form_content (post_feedback 2 ''x'' True))) = ''x''"
    by code_simp
  have h5: "''x'' \<noteq> []" by simp
  have h6: "2 \<in> set (map u_id (users logged_in))" by code_simp
  have h7: "length (filter (by_pair (u_id alice) 2) (feedbacks logged_in)) \<le> 1"
    by code_simp
  note c = give_feedback_twice [OF h1 h2 h3 h4 h5 h6 h7, of 200 100]
  show ?thesis
    by (intro conjI) (rule h1 h2 h3 h4 h5 h6 h7 c)+
qed

text \<open>
  C2 as stated starts from any store. From a store with two rows for the pair, the same
  submission made twice leaves two rows for the pair, one of them with another content.
\<close>

theorem give_feedback_twice_duplicate_rows:
  "filter (by_pair 1 2)
     (feedbacks (snd (give_feedback 201
        (snd (give_feedback 200 two_rows (post_feedback 2 ''x'' True)))
        (post_feedback 2 ''x'' True)))) =
     [\<lparr>f_id = 1, sender_id = 1, recipient_id = 2, content = ''x'', visible = True,
       created_at = 100\<rparr>,
      \<lparr>f_id = 2, sender_id = 1, recipient_id = 2, content = ''older'', visible = False,
       created_at = 101\<rparr>]"
  by code_simp

text \<open>
  C3. The empty store has at most one row for each ordered pair of sender and recipient,
  and a call of the handler, whatever the request and whether it succeeds or fails, keeps
  that property of the store.
\<close>

theorem give_feedback_unique_pairs:
  "unique_pairs [] \<and>
   (unique_pairs (feedbacks w) \<longrightarrow>
      unique_pairs (feedbacks (snd (give_feedback now w req))))"
  by (auto simp: give_feedback_def give_feedback_on_def insert_refused_def unique_pairs_def
        Let_def update_first_keys
      dest: find_by_pair_None split: option.splits)

theorem give_feedback_unique_pairs_witness:
  "unique_pairs (feedbacks one_row) \<and>
   unique_pairs (feedbacks (snd (give_feedback 200 one_row (post_feedback 1 ''me'' True))))"
proof -
  have h: "unique_pairs (feedbacks one_row)" by code_simp
  show ?thesis
    using h give_feedback_unique_pairs [of one_row 200 "post_feedback 1 ''me'' True"] by simp
qed

text \<open>
  C4. For a logged-in sender and a recipient id that is an integer, the POST fails with
  \<open>EmptyContent\<close> exactly when the content is empty after trimming, and then the state,
  the feedback rows with it, is the one before the call.
\<close>

theorem give_feedback_empty_content:
  assumes "current_user w = Some u" and "req_method req = POST"
    and "form_recipient_id req = Some r"
  shows "((fst (give_feedback now w req) = EmptyContent) =
            (strip (get_or_empty (form_content req)) = [])) \<and>
         (fst (give_feedback now w req) = EmptyContent \<longrightarrow>
            snd (give_feedback now w req) = w)"
  using assms
  by (auto simp: give_feedback_def give_feedback_on_def insert_refused_def EmptyContent_def
        Let_def split: option.splits)

theorem give_feedback_empty_content_witness:
  "current_user logged_in = Some alice \<and> req_method (post_feedback 2 '' '' True) = POST \<and>
   form_recipient_id (post_feedback 2 '' '' True) = Some 2 \<and>
   strip (get_or_empty (form_content (post_feedback 2 '' '' True))) = [] \<and>
   fst (give_feedback 200 logged_in (post_feedback 2 '' '' True)) = EmptyContent \<and>
   snd (give_feedback 200 logged_in (post_feedback 2 '' '' True)) = logged_in"
proof -
  have h1: "current_user logged_in = Some alice" by code_simp
  have h2: "req_method (post_feedback 2 '' '' True) = POST" by code_simp
  have h3: "form_recipient_id (post_feedback 2 '' '' True) = Some 2" by code_simp
  have e: "strip (get_or_empty (form_content (post_feedback 2 '' '' True))) = []"
    by code_simp
  show ?thesis using h1 h2 h3 e give_feedback_empty_content [OF h1 h2 h3, of 200] by simp
qed

text \<open>
  C8, as the code has it. The handler does not look the recipient up; the guard is the
  foreign key of the store. Let the store refuse every row whose recipient is no user, and
  let the feedback rows that it holds point to users. Then a POST by a logged-in sender to
  a recipient id that no user has fails, and no feedback row is created or modified: with
  blank content the handler answers \<open>EmptyContent\<close>; with other content the handler
  reports no failure of its own and the call ends in the exception that the store raises
  for the row.
\<close>

theorem give_feedback_unknown_recipient:
  assumes "current_user w = Some u" and "req_method req = POST"
    and "form_recipient_id req = Some r"
    and "r \<notin> set (map u_id (users w))"
    and "\<forall>f \<in> set (feedbacks w). recipient_id f \<in> set (map u_id (users w))"
    and "\<And>f. recipient_id f \<notin> set (map u_id (users w)) \<Longrightarrow> commit (users w) f \<noteq> None"
  shows "(if strip (get_or_empty (form_content req)) = []
          then fst (give_feedback_on commit now w req) = EmptyContent
          else server_error (fst (give_feedback_on commit now w req)) \<and>
               \<not> app_failure (fst (give_feedback_on commit now w req))) \<and>
         snd (give_feedback_on commit now w req) = w"
proof -
  let ?c = "strip (get_or_empty (form_content req))"
  let ?f = "\<lparr>f_id = fresh_id (feedbacks w), sender_id = u_id u, recipient_id = r,
             content = ?c, visible = (\<not> falsy_str (form_visible req)), created_at = now\<rparr>"
  have none: "find (by_pair (u_id u) r) (feedbacks w) = None"
    using assms(4,5) by (auto simp: find_None_iff by_pair_def)
  have "commit (users w) ?f \<noteq> None"
    using assms(4) by (intro assms(6)) simp
  then obtain e where e: "commit (users w) ?f = Some e" by auto
  show ?thesis
  proof (cases "?c = []")
    case True
    then show ?thesis
      using assms(1-3) by (simp add: give_feedback_on_def Let_def EmptyContent_def)
  next
    case False
    then have "give_feedback_on commit now w req = (ServerError e, w)"
      using assms(1-3) none e by (simp add: give_feedback_on_def Let_def)
    with False show ?thesis by (simp add: server_error_def app_failure_def)
  qed
qed

theorem give_feedback_unknown_recipient_witness:
  "current_user one_row = Some alice \<and> req_method (post_feedback 7 ''hi'' True) = POST \<and>
   form_recipient_id (post_feedback 7 ''hi'' True) = Some 7 \<and>
   7 \<notin> set (map u_id (users one_row)) \<and>
   map recipient_id (feedbacks one_row) = [2] \<and> map u_id (users one_row) = [1, 2] \<and>
   strip (get_or_empty (form_content (post_feedback 7 ''hi'' True))) \<noteq> [] \<and>
   server_error (fst (give_feedback_on insert_refused 200 one_row (post_feedback 7 ''hi'' True))) \<and>
   \<not> app_failure
       (fst (give_feedback_on insert_refused 200 one_row (post_feedback 7 ''hi'' True))) \<and>
   snd (give_feedback_on insert_refused 200 one_row (post_feedback 7 ''hi'' True)) = one_row"
proof -
  have h1: "current_user one_row = Some alice" by code_simp
  have h2: "req_method (post_feedback 7 ''hi'' True) = POST" by code_simp
  have h3: "form_recipient_id (post_feedback 7 ''hi'' True) = Some 7" by code_simp
  have h4: "7 \<notin> set (map u_id (users one_row))" by code_simp
  have h5: "\<forall>f \<in> set (feedbacks one_row). recipient_id f \<in> set (map u_id (users one_row))"
    by code_simp
  have h6: "insert_refused (users one_row) f \<noteq> None"
    if "recipient_id f \<notin> set (map u_id (users one_row))" for f
    using that by (simp add: insert_refused_def fk_ok_def)
  have c: "strip (get_or_empty (form_content (post_feedback 7 ''hi'' True))) \<noteq> []"
    by code_simp
  have rows: "map recipient_id (feedbacks one_row) = [2] \<and> map u_id (users one_row) = [1, 2]"
    by code_simp
  show ?thesis
    using h1 h2 h3 h4 c rows
      give_feedback_unknown_recipient
        [where commit = insert_refused and now = 200, OF h1 h2 h3 h4 h5 h6]
    by simp
qed

text \<open>
  C8 as stated has the call fail at the application layer. For recipient 99, which no
  user has, the handler reports no failure of its own: the response is the uncaught
  \<open>IntegrityError\<close> of the store.
\<close>

theorem give_feedback_unknown_recipient_server_error:
  "give_feedback 200 logged_in (post_feedback 99 ''hi'' True) =
     (ServerError IntegrityError, logged_in) \<and>
   \<not> app_failure (fst (give_feedback 200 logged_in (post_feedback 99 ''hi'' True)))"
  by code_simp

text \<open>
  C9. For a logged-in user the page shows the rows that the user sent and the rows that
  the user received, each list holding exactly those rows and each in descending order of
  \<open>created_at\<close>.
\<close>

theorem view_feedback_newest_first:
  assumes "current_user w = Some u"
  shows "\<exists>given received.
           view_feedback w = (Render (ViewFeedbackPage u given received), w) \<and>
           mset given = mset (filter (\<lambda>f. sender_id f = u_id u) (feedbacks w)) \<and>
           mset received = mset (filter (\<lambda>f. recipient_id f = u_id u) (feedbacks w)) \<and>
           sorted_wrt (\<lambda>a b. created_at b \<le> created_at a) given \<and>
           sorted_wrt (\<lambda>a b. created_at b \<le> created_at a) received"
  using assms by (simp add: view_feedback_def Let_def sorted_desc mset_order_by)

theorem view_feedback_newest_first_witness:
  "current_user three_rows = Some alice \<and>
   (\<exists>given received.
      view_feedback three_rows = (Render (ViewFeedbackPage alice given received), three_rows) \<and>
      mset given = mset (filter (\<lambda>f. sender_id f = u_id alice) (feedbacks three_rows)) \<and>
      mset received = mset (filter (\<lambda>f. recipient_id f = u_id alice) (feedbacks three_rows)) \<and>
      sorted_wrt (\<lambda>a b. created_at b \<le> created_at a) given \<and>
      sorted_wrt (\<lambda>a b. created_at b \<le> created_at a) received)"
proof -
  have h1: "current_user three_rows = Some alice" by code_simp
  show ?thesis using h1 view_feedback_newest_first [OF h1] by simp
qed

section \<open>Authentication\<close>

text \<open>
  C5. For a session whose pending user id resolves to a user, a POST to set-password fails
  with \<open>PasswordMismatch\<close> exactly when the two passwords differ or one of them is empty
  or missing. On that failure the state is the one before the call: no hash is stored for
  the user and the session has no new \<open>user_id\<close>.
\<close>

theorem set_password_mismatch:
  assumes "req_method req = POST" and "pre_user_id w = Some i" and "i \<noteq> 0"
    and "find (\<lambda>u. u_id u = i) (users w) = Some u"
  shows "((fst (set_password lib salt w req) = PasswordMismatch) =
           (form_password req \<noteq> form_confirm_password req \<or> falsy_str (form_password req)
             \<or> falsy_str (form_confirm_password req))) \<and>
         (fst (set_password lib salt w req) = PasswordMismatch \<longrightarrow>
            snd (set_password lib salt w req) = w)"
  using assms
  by (auto simp: set_password_def PasswordMismatch_def falsy_int_def Let_def)

theorem set_password_mismatch_witness:
  "req_method (post_set_password ''a'' ''b'') = POST \<and> pre_user_id pending = Some 1 \<and>
   (1::int) \<noteq> 0 \<and> find (\<lambda>u. u_id u = 1) (users pending) = Some alice \<and>
   fst (set_password toy_lib ''s4lt'' pending (post_set_password ''a'' ''b'')) =
     PasswordMismatch \<and>
   snd (set_password toy_lib ''s4lt'' pending (post_set_password ''a'' ''b'')) = pending \<and>
   password_hash alice = None \<and> user_id pending = None"
proof -
  have h1: "req_method (post_set_password ''a'' ''b'') = POST" by code_simp
  have h2: "pre_user_id pending = Some 1" by code_simp
  have h3: "(1::int) \<noteq> 0" by simp
  have h4: "find (\<lambda>u. u_id u = 1) (users pending) = Some alice" by code_simp
  have d: "form_password (post_set_password ''a'' ''b'') \<noteq>
           form_confirm_password (post_set_password ''a'' ''b'')" by code_simp
  have n: "password_hash alice = None \<and> user_id pending = None" by code_simp
  show ?thesis
    using h1 h2 h4 d n set_password_mismatch [OF h1 h2 h3 h4, of toy_lib "''s4lt''"] by simp
qed

text \<open>
  C6. Let the ids and the emails of the users be distinct, and let a user with no stored
  hash and a nonzero id be given. A login POST with an email that normalises to the
  user's email redirects to set-password with the user pending; a set-password POST with
  a non-empty password given twice stores the hash, clears the pending id and logs the
  user in; then \<open>check_password\<close> of the stored user accepts the password, and so does a
  login POST with it. The hashing library is assumed to return a non-empty hash that its
  check accepts for the same password.
\<close>

theorem first_login_roundtrip:
  assumes "distinct (map u_id (users w))" and "distinct (map u_email (users w))"
    and "u \<in> set (users w)" and "falsy_str (password_hash u)" and "u_id u \<noteq> 0"
    and "req_method req1 = POST" and "lower (strip (get_or_empty (form_email req1))) = u_email u"
    and "req_method req2 = POST" and "form_password req2 = Some p"
    and "form_confirm_password req2 = Some p" and "p \<noteq> []"
    and "generate_password_hash lib salt p \<noteq> []"
    and "check_password_hash lib (generate_password_hash lib salt p) p"
    and "req_method req3 = POST" and "lower (strip (get_or_empty (form_email req3))) = u_email u"
    and "form_password req3 = Some p"
  shows "let r1 = login lib w req1;
             r2 = set_password lib salt (snd r1) req2;
             r3 = login lib (snd r2) req3
         in fst r1 = Redirect ''set_password'' [] \<and>
            pre_user_id (snd r1) = Some (u_id u) \<and>
            fst r2 = Redirect ''dashboard'' [(''Password set! Logged in.'', ''success'')] \<and>
            user_id (snd r2) = Some (u_id u) \<and> pre_user_id (snd r2) = None \<and>
            current_user (snd r2) = Some (User_set_password lib salt u p) \<and>
            User_check_password lib (User_set_password lib salt u p) p \<and>
            fst r3 = Redirect ''dashboard'' [(''Welcome, '' @ u_name u @ ''!'', ''success'')] \<and>
            user_id (snd r3) = Some (u_id u)"
proof -
  let ?g = "\<lambda>x. User_set_password lib salt x p"
  let ?us = "update_first (\<lambda>x. u_id x = u_id u) ?g (users w)"
  let ?w2 = "w\<lparr>users := ?us, pre_user_id := None, user_id := Some (u_id u)\<rparr>"
  have by_email: "find (\<lambda>x. u_email x = u_email u) (users w) = Some u"
    using assms(2,3) by (rule find_distinct)
  have by_id: "find (\<lambda>x. u_id x = u_id u) (users w) = Some u"
    using assms(1,3) by (rule find_distinct)
  have r1: "login lib w req1 = (Redirect ''set_password'' [], w\<lparr>pre_user_id := Some (u_id u)\<rparr>)"
    using assms(4,6,7) by_email by (simp add: login_def)
  have r2: "set_password lib salt (w\<lparr>pre_user_id := Some (u_id u)\<rparr>) req2 =
              (Redirect ''dashboard'' [(''Password set! Logged in.'', ''success'')], ?w2)"
    using assms(5,8-11) by_id
    by (simp add: set_password_def falsy_int_def falsy_str_def get_or_empty_def)
  have by_id2: "find (\<lambda>x. u_id x = u_id u) ?us = Some (?g u)"
    using assms(1) assms(1) assms(3)
    by (rule find_update_first_distinct) (simp add: User_set_password_def)
  have by_email2: "find (\<lambda>x. u_email x = u_email u) ?us = Some (?g u)"
    using assms(1) assms(2) assms(3)
    by (rule find_update_first_distinct) (simp add: User_set_password_def)
  have cu: "current_user ?w2 = Some (?g u)"
    using assms(5) by_id2 by (simp add: current_user_def falsy_int_def)
  have chk: "User_check_password lib (?g u) p"
    using assms(12,13) by (simp add: User_check_password_def User_set_password_def)
  have truthy: "\<not> falsy_str (password_hash (?g u))"
    using assms(12) by (simp add: falsy_str_def User_set_password_def)
  have r3: "login lib ?w2 req3 =
              (Redirect ''dashboard'' [(''Welcome, '' @ u_name u @ ''!'', ''success'')], ?w2)"
    using assms(14-16) by_email2 chk truthy
    by (simp add: login_def get_or_empty_def User_set_password_def)
  show ?thesis
    using r1 r2 r3 cu chk by (simp add: Let_def)
qed

theorem first_login_roundtrip_witness:
  "distinct (map u_id (users anonymous)) \<and> distinct (map u_email (users anonymous)) \<and>
   alice \<in> set (users anonymous) \<and> falsy_str (password_hash alice) \<and> u_id alice \<noteq> 0 \<and>
   req_method (post_login '' Alice@Example.ORG'' '''') = POST \<and>
   lower (strip (get_or_empty (form_email (post_login '' Alice@Example.ORG'' '''')))) =
     u_email alice \<and>
   req_method (post_set_password ''a'' ''a'') = POST \<and>
   form_password (post_set_password ''a'' ''a'') = Some ''a'' \<and>
   form_confirm_password (post_set_password ''a'' ''a'') = Some ''a'' \<and> ''a'' \<noteq> [] \<and>
   generate_password_hash toy_lib ''s4lt'' ''a'' \<noteq> [] \<and>
   check_password_hash toy_lib (generate_password_hash toy_lib ''s4lt'' ''a'') ''a'' \<and>
   req_method (post_login ''alice@example.org'' ''a'') = POST \<and>
   lower (strip (get_or_empty (form_email (post_login ''alice@example.org'' ''a'')))) =
     u_email alice \<and>
   form_password (post_login ''alice@example.org'' ''a'') = Some ''a'' \<and>
   (let r1 = login toy_lib anonymous (post_login '' Alice@Example.ORG'' '''');
        r2 = set_password toy_lib ''s4lt'' (snd r1) (post_set_password ''a'' ''a'');
        r3 = login toy_lib (snd r2) (post_login ''alice@example.org'' ''a'')
    in fst r1 = Redirect ''set_password'' [] \<and>
       pre_user_id (snd r1) = Some (u_id alice) \<and>
       fst r2 = Redirect ''dashboard'' [(''Password set! Logged in.'', ''success'')] \<and>
       user_id (snd r2) = Some (u_id alice) \<and> pre_user_id (snd r2) = None \<and>
       current_user (snd r2) = Some (User_set_password toy_lib ''s4lt'' alice ''a'') \<and>
       User_check_password toy_lib (User_set_password toy_lib ''s4lt'' alice ''a'') ''a'' \<and>
       fst r3 = Redirect ''dashboard'' [(''Welcome, '' @ u_name alice @ ''!'', ''success'')] \<and>
       user_id (snd r3) = Some (u_id alice))"
proof -
  have h1: "distinct (map u_id (users anonymous))" by code_simp
  have h2: "distinct (map u_email (users anonymous))" by code_simp
  have h3: "alice \<in> set (users anonymous)" by code_simp
  have h4: "falsy_str (password_hash alice)" by code_simp
  have h5: "u_id alice \<noteq> 0" by code_simp
  have h6: "req_method (post_login '' Alice@Example.ORG'' '''') = POST" by code_simp
  have h7: "lower (strip (get_or_empty (form_email (post_login '' Alice@Example.ORG'' '''')))) =
     u_email alice" by code_simp
  have h8: "req_method (post_set_password ''a'' ''a'') = POST" by code_simp
  have h9: "form_password (post_set_password ''a'' ''a'') = Some ''a''" by code_simp
  have h10: "form_confirm_password (post_set_password ''a'' ''a'') = Some ''a''" by code_simp
  have h11: "''a'' \<noteq> []" by simp
  have h12: "generate_password_hash toy_lib ''s4lt'' ''a'' \<noteq> []" by code_simp
  have h13: "check_password_hash toy_lib (generate_password_hash toy_lib ''s4lt'' ''a'') ''a''"
    by code_simp
  have h14: "req_method (post_login ''alice@example.org'' ''a'') = POST" by code_simp
  have h15: "lower (strip (get_or_empty (form_email (post_login ''alice@example.org'' ''a'')))) =
     u_email alice" by code_simp
  have h16: "form_password (post_login ''alice@example.org'' ''a'') = Some ''a''" by code_simp
  note c = first_login_roundtrip
    [OF h1 h2 h3 h4 h5 h6 h7 h8 h9 h10 h11 h12 h13 h14 h15 h16]
  show ?thesis
    by (intro conjI) (rule h1 h2 h3 h4 h5 h6 h7 h8 h9 h10 h11 h12 h13 h14 h15 h16 c)+
qed

text \<open>
  C7. A login POST whose email, trimmed and lowercased, is the email of no user answers
  \<open>UnknownEmail\<close> and leaves the state as it was: neither \<open>user_id\<close> nor \<open>pre_user_id\<close> is
  set.
\<close>

theorem login_unknown_email:
  assumes "req_method req = POST"
    and "lower (strip (get_or_empty (form_email req))) \<notin> set (map u_email (users w))"
  shows "login lib w req = (UnknownEmail, w)"
proof -
  have "find (\<lambda>u. u_email u = lower (strip (get_or_empty (form_email req)))) (users w) = None"
    using assms(2) by (force simp: find_None_iff)
  then show ?thesis using assms(1) by (simp add: login_def UnknownEmail_def)
qed

theorem login_unknown_email_witness:
  "req_method (post_login '' Carol@Example.ORG  '' ''pw'') = POST \<and>
   lower (strip (get_or_empty (form_email (post_login '' Carol@Example.ORG  '' ''pw''))))
     \<notin> set (map u_email (users anonymous)) \<and>
   login toy_lib anonymous (post_login '' Carol@Example.ORG  '' ''pw'') =
     (UnknownEmail, anonymous)"
proof -
  have m: "req_method (post_login '' Carol@Example.ORG  '' ''pw'') = POST"
    by (simp add: post_login_def)
  have e: "lower (strip (get_or_empty (form_email (post_login '' Carol@Example.ORG  '' ''pw''))))
     \<notin> set (map u_email (users anonymous))"
    by code_simp
  show ?thesis using m e login_unknown_email [OF m e, of toy_lib] by simp
qed

text \<open>
  C10. For a user with no stored hash, \<open>check_password\<close> is false for every candidate
  password, the empty string included, whatever the hashing library.
\<close>

theorem check_password_no_hash:
  "password_hash u = None \<Longrightarrow> \<not> User_check_password lib u raw"
  by (simp add: User_check_password_def)

theorem check_password_no_hash_witness:
  "password_hash alice = None \<and> \<not> User_check_password toy_lib alice ''''"
  using check_password_no_hash [of alice toy_lib "''''"] by (simp add: alice_def)

end
